theory Spec2Isabelle
  imports Main "HOL-Library.AList" "HOL-Library.Word"
begin

section \<open>Values thrown by the external collaborators\<close>

text \<open>
  The network node (libp2p), the block store (Helia over LevelDB) and the database
  engine (OrbitDB) are external libraries. A call into one of them either returns
  or throws; the value thrown is read by the code through \<^verbatim>\<open>error.code\<close>,
  \<^verbatim>\<open>error.notFound\<close>, \<^verbatim>\<open>error instanceof Error\<close>, \<^verbatim>\<open>error.message\<close> and
  \<^verbatim>\<open>String(error)\<close>, which are the fields of the record below.
\<close>

record js_error =
  err_code :: string
  err_notFound :: bool
  err_is_Error :: bool
  err_message :: string
  err_String :: string

text \<open>\<^verbatim>\<open>error.code === 'LEVEL_NOT_FOUND' || error.notFound\<close>\<close>

definition level_not_found :: "js_error \<Rightarrow> bool" where
  "level_not_found e \<longleftrightarrow> err_code e = ''LEVEL_NOT_FOUND'' \<or> err_notFound e"

text \<open>\<^verbatim>\<open>error instanceof Error ? error.message : String(error)\<close>\<close>

definition error_text :: "js_error \<Rightarrow> string" where
  "error_text e = (if err_is_Error e then err_message e else err_String e)"

section \<open>p2p-main.ts: the singleton state of the main process\<close>

record connection =
  remotePeer :: string
  remoteAddr :: string
  status :: string

record libp2p_node =
  node_peerId :: string
  node_multiaddrs :: "string list"
  node_connections :: "connection list"

record helia_node =
  helia_libp2p :: libp2p_node
  helia_blockstore :: string
  helia_datastore :: string

text \<open>
  The identity as it arrives from the renderer (\<^verbatim>\<open>serializeIdentity\<close>): the
  identifier, the public key bytes as an array of numbers and the type tag.
\<close>

record serialized_identity =
  sid_id :: string
  sid_publicKey :: "nat list"
  sid_type :: string

record orbitdb_instance =
  orbit_ipfs :: helia_node
  orbit_identity :: serialized_identity
  orbit_directory :: string

text \<open>
  \<^verbatim>\<open>let libp2p = null; let helia = null; let orbitdb = null;\<close>
\<close>

record p2p_state =
  libp2p :: "libp2p_node option"
  helia :: "helia_node option"
  orbitdb :: "orbitdb_instance option"

definition initial_state :: p2p_state where
  "initial_state = \<lparr>libp2p = None, helia = None, orbitdb = None\<rparr>"

text \<open>
  \<^verbatim>\<open>{ success, error? }\<close> is the result of every operation; \<^verbatim>\<open>P2PInitResult\<close>
  adds the optional \<^verbatim>\<open>peerId\<close>, \<^verbatim>\<open>multiaddrs\<close> and \<^verbatim>\<open>storageDir\<close>.
\<close>

record op_result =
  success :: bool
  error :: "string option"

record P2PInitResult = op_result +
  peerId :: "string option"
  multiaddrs :: "string list option"
  storageDir :: "string option"

definition ok_result :: op_result where
  "ok_result = \<lparr>success = True, error = None\<rparr>"

definition fail_result :: "string \<Rightarrow> op_result" where
  "fail_result msg = \<lparr>success = False, error = Some msg\<rparr>"

definition init_ok :: "string \<Rightarrow> string list \<Rightarrow> string \<Rightarrow> P2PInitResult" where
  "init_ok p ms dir =
     \<lparr>success = True, error = None, peerId = Some p, multiaddrs = Some ms, storageDir = Some dir\<rparr>"

definition init_failed :: "string \<Rightarrow> P2PInitResult" where
  "init_failed msg =
     \<lparr>success = False, error = Some msg, peerId = None, multiaddrs = None, storageDir = None\<rparr>"

text \<open>
  \<^verbatim>\<open>path.join\<close> on segments that need no normalisation: the segments joined by
  the separator.
\<close>

fun path_join :: "string list \<Rightarrow> string" where
  "path_join [] = ''.''"
| "path_join [p] = p"
| "path_join (p # ps) = p @ ''/'' @ path_join ps"

text \<open>
  What the environment answers during one call of \<^verbatim>\<open>initializeP2P\<close>:
  the per-application data directory, the outcome of \<^verbatim>\<open>createLibp2p\<close> (the new
  node, or the value thrown) and the outcome of \<^verbatim>\<open>createHelia\<close> on the two
  LevelDB stores (nothing, or the value thrown).
\<close>

record init_env =
  userData :: string
  createLibp2p :: "js_error + libp2p_node"
  createHelia :: "js_error option"

text \<open>The \<^verbatim>\<open>catch\<close> block of \<^verbatim>\<open>initializeP2P\<close>, run in the state reached at the throw.\<close>

definition initializeP2P_catch :: "init_env \<Rightarrow> js_error \<Rightarrow> p2p_state \<Rightarrow> P2PInitResult \<times> p2p_state" where
  "initializeP2P_catch env e st =
     (if level_not_found e then
        (init_ok (case libp2p st of Some n \<Rightarrow> node_peerId n | None \<Rightarrow> '''')
                 (case libp2p st of Some n \<Rightarrow> node_multiaddrs n | None \<Rightarrow> [])
                 (path_join [userData env, ''orbitdb'']),
         st)
      else (init_failed (error_text e), st))"

definition initializeP2P :: "init_env \<Rightarrow> p2p_state \<Rightarrow> P2PInitResult \<times> p2p_state" where
  "initializeP2P env st =
     (case createLibp2p env of
        Inl e \<Rightarrow> initializeP2P_catch env e st
      | Inr node \<Rightarrow>
          let st1 = st\<lparr>libp2p := Some node\<rparr>;
              storage = path_join [userData env, ''orbitdb'']
          in (case createHelia env of
                Some e \<Rightarrow> initializeP2P_catch env e st1
              | None \<Rightarrow>
                  (init_ok (node_peerId node) (node_multiaddrs node) storage,
                   st1\<lparr>helia := Some \<lparr>helia_libp2p = node,
                                        helia_blockstore = path_join [storage, ''blocks''],
                                        helia_datastore = path_join [storage, ''data'']\<rparr>\<rparr>)))"

text \<open>
  \<^verbatim>\<open>createOrbitDBWithIdentity(identity)\<close>; the environment gives the data
  directory and the outcome of \<^verbatim>\<open>createOrbitDB\<close>.
\<close>

record orbit_env =
  orbit_userData :: string
  createOrbitDB :: "js_error option"

definition createOrbitDBWithIdentity ::
    "orbit_env \<Rightarrow> serialized_identity \<Rightarrow> p2p_state \<Rightarrow> op_result \<times> p2p_state" where
  "createOrbitDBWithIdentity env identity st =
     (case helia st of
        None \<Rightarrow> (fail_result ''Helia not initialized. Call initializeP2P first.'', st)
      | Some h \<Rightarrow>
          (case orbitdb st of
             Some _ \<Rightarrow> (ok_result, st)
           | None \<Rightarrow>
               (case createOrbitDB env of
                  None \<Rightarrow>
                    (ok_result,
                     st\<lparr>orbitdb := Some \<lparr>orbit_ipfs = h, orbit_identity = identity,
                            orbit_directory = path_join [orbit_userData env, ''orbitdb'', ''orbitdb'']\<rparr>\<rparr>)
                | Some e \<Rightarrow>
                    (if level_not_found e then (ok_result, st)
                     else (fail_result (error_text e), st)))))"

definition getPeerId :: "p2p_state \<Rightarrow> string option" where
  "getPeerId st = (case libp2p st of Some n \<Rightarrow> Some (node_peerId n) | None \<Rightarrow> None)"

definition getMultiaddrs :: "p2p_state \<Rightarrow> string list" where
  "getMultiaddrs st = (case libp2p st of Some n \<Rightarrow> node_multiaddrs n | None \<Rightarrow> [])"

definition getConnections :: "p2p_state \<Rightarrow> connection list" where
  "getConnections st = (case libp2p st of None \<Rightarrow> [] | Some n \<Rightarrow> node_connections n)"

definition getOrbitDB :: "p2p_state \<Rightarrow> orbitdb_instance option" where
  "getOrbitDB st = orbitdb st"

subsection \<open>shutdownP2P\<close>

text \<open>
  What \<^verbatim>\<open>shutdownP2P\<close> does to the outside: the \<^verbatim>\<open>stop()\<close> calls it makes, in
  order, and the error it writes with \<^verbatim>\<open>console.error\<close>. The environment gives,
  for each member, whether its \<^verbatim>\<open>stop()\<close> throws.
\<close>

datatype member = OrbitDB | Helia | Libp2p

datatype effect = Stop member | Console_error js_error

record stop_env =
  orbitdb_stop :: "js_error option"
  helia_stop :: "js_error option"
  libp2p_stop :: "js_error option"

text \<open>
  One \<^verbatim>\<open>if (m) { await m.stop(); m = null; }\<close> block: the value thrown, if any,
  the state and the effects. The assignment \<^verbatim>\<open>m = null\<close> is not reached when
  \<^verbatim>\<open>stop()\<close> throws.
\<close>

definition stop_orbitdb :: "stop_env \<Rightarrow> p2p_state \<Rightarrow> js_error option \<times> p2p_state \<times> effect list" where
  "stop_orbitdb env st =
     (case orbitdb st of
        None \<Rightarrow> (None, st, [])
      | Some _ \<Rightarrow>
          (case orbitdb_stop env of
             Some e \<Rightarrow> (Some e, st, [Stop OrbitDB])
           | None \<Rightarrow> (None, st\<lparr>orbitdb := None\<rparr>, [Stop OrbitDB])))"

definition stop_helia :: "stop_env \<Rightarrow> p2p_state \<Rightarrow> js_error option \<times> p2p_state \<times> effect list" where
  "stop_helia env st =
     (case helia st of
        None \<Rightarrow> (None, st, [])
      | Some _ \<Rightarrow>
          (case helia_stop env of
             Some e \<Rightarrow> (Some e, st, [Stop Helia])
           | None \<Rightarrow> (None, st\<lparr>helia := None\<rparr>, [Stop Helia])))"

definition stop_libp2p :: "stop_env \<Rightarrow> p2p_state \<Rightarrow> js_error option \<times> p2p_state \<times> effect list" where
  "stop_libp2p env st =
     (case libp2p st of
        None \<Rightarrow> (None, st, [])
      | Some _ \<Rightarrow>
          (case libp2p_stop env of
             Some e \<Rightarrow> (Some e, st, [Stop Libp2p])
           | None \<Rightarrow> (None, st\<lparr>libp2p := None\<rparr>, [Stop Libp2p])))"

text \<open>
  The three blocks stand in one \<^verbatim>\<open>try\<close>; the single \<^verbatim>\<open>catch\<close> logs the
  value thrown and the function returns.
\<close>

definition shutdownP2P :: "stop_env \<Rightarrow> p2p_state \<Rightarrow> p2p_state \<times> effect list" where
  "shutdownP2P env st =
     (case stop_orbitdb env st of
        (Some e, st1, fx1) \<Rightarrow> (st1, fx1 @ [Console_error e])
      | (None, st1, fx1) \<Rightarrow>
          (case stop_helia env st1 of
             (Some e, st2, fx2) \<Rightarrow> (st2, fx1 @ fx2 @ [Console_error e])
           | (None, st2, fx2) \<Rightarrow>
               (case stop_libp2p env st2 of
                  (Some e, st3, fx3) \<Rightarrow> (st3, fx1 @ fx2 @ fx3 @ [Console_error e])
                | (None, st3, fx3) \<Rightarrow> (st3, fx1 @ fx2 @ fx3))))"

text \<open>The \<^verbatim>\<open>stop()\<close> calls among the effects, in order.\<close>

fun stops :: "effect list \<Rightarrow> member list" where
  "stops [] = []"
| "stops (Stop m # fx) = m # stops fx"
| "stops (Console_error e # fx) = stops fx"

fun logged :: "effect list \<Rightarrow> js_error list" where
  "logged [] = []"
| "logged (Stop m # fx) = logged fx"
| "logged (Console_error e # fx) = e # logged fx"

subsection \<open>index.ts: the handler of initialize\<close>

text \<open>
  The \<^verbatim>\<open>p2p:initialize\<close> handler awaits \<^verbatim>\<open>initializeP2P()\<close> and returns
  its result; it tests no member of the state before the call. Its own \<^verbatim>\<open>catch\<close>
  is not reached, since \<^verbatim>\<open>initializeP2P\<close> returns a result for every value thrown
  inside its \<^verbatim>\<open>try\<close>.
\<close>

definition p2p_initialize :: "init_env \<Rightarrow> p2p_state \<Rightarrow> P2PInitResult \<times> p2p_state" where
  "p2p_initialize env st = initializeP2P env st"

section \<open>data-model.js: the identity of the device\<close>

type_synonym bytes = "8 word list"

text \<open>\<^verbatim>\<open>new Error(msg)\<close>\<close>

definition Error :: "string \<Rightarrow> js_error" where
  "Error msg = \<lparr>err_code = [], err_notFound = False, err_is_Error = True,
                 err_message = msg, err_String = ''Error: '' @ msg\<rparr>"

text \<open>
  A binary argument is a \<^verbatim>\<open>Uint8Array\<close>, an \<^verbatim>\<open>ArrayBuffer\<close> or an array of
  numbers; \<^verbatim>\<open>x instanceof Uint8Array ? x : new Uint8Array(x)\<close> reads the bytes of
  each (a number is reduced modulo 256).
\<close>

datatype binary = Uint8Array bytes | ArrayBuffer bytes | NumberArray "nat list"

fun as_Uint8Array :: "binary \<Rightarrow> bytes" where
  "as_Uint8Array (Uint8Array bs) = bs"
| "as_Uint8Array (ArrayBuffer bs) = bs"
| "as_Uint8Array (NumberArray ns) = map of_nat ns"

text \<open>
  The two encoders are functions of libraries, the same in every run:
  \<^verbatim>\<open>base58btc.encode\<close> of multiformats and \<^verbatim>\<open>btoa\<close> of the platform, applied by
  \<^verbatim>\<open>arrayBufferToBase64\<close> to the bytes as a binary string.
\<close>

record codecs =
  base58btc_encode :: "bytes \<Rightarrow> string"
  btoa :: "bytes \<Rightarrow> string"

definition arrayBufferToBase64 :: "codecs \<Rightarrow> bytes \<Rightarrow> string" where
  "arrayBufferToBase64 lib buffer = btoa lib buffer"

definition generateDID :: "codecs \<Rightarrow> bytes \<Rightarrow> string" where
  "generateDID lib publicKeyBytes = ''did:key:'' @ base58btc_encode lib publicKeyBytes"

record credential =
  cred_id :: string
  cred_rawId :: string
  cred_publicKey :: binary
  cred_userName :: string
  cred_createdAt :: nat
  cred_type :: string

text \<open>
  The identity object; its \<^verbatim>\<open>sign\<close> and \<^verbatim>\<open>verify\<close> members are closures over
  the credential and are the functions \<open>identity_verify\<close> below and
  \<^verbatim>\<open>signWithWebAuthn\<close>.
\<close>

record identity =
  identity_id :: string
  identity_publicKey :: bytes
  identity_type :: string
  identity_credential :: credential

definition createOrbitDBIdentity :: "codecs \<Rightarrow> credential \<Rightarrow> identity" where
  "createOrbitDBIdentity lib c =
     (let publicKeyBytes = as_Uint8Array (cred_publicKey c);
          did = generateDID lib publicKeyBytes
      in \<lparr>identity_id = did, identity_publicKey = publicKeyBytes,
          identity_type = ''webauthn'', identity_credential = c\<rparr>)"

text \<open>
  \<^verbatim>\<open>setupDevice(userName)\<close>. The platform answers: whether
  \<^verbatim>\<open>navigator.credentials.create\<close> exists, what the call returns (a credential,
  \<^verbatim>\<open>null\<close>, or a value thrown) and the clock. The
  random challenge and user id go into the request only. The result is the
  credential, the identity and the credential written to local storage (its public
  key in base 64), or the value thrown.
\<close>

record public_key_credential =
  pkc_id :: string
  pkc_rawId :: bytes
  pkc_type :: string
  pkc_getPublicKey :: "bytes option"

record webauthn_env =
  has_credentials_create :: bool
  credentials_create :: "js_error + public_key_credential option"
  Date_now :: nat

record stored_credential =
  stored_id :: string
  stored_rawId :: string
  stored_publicKey :: string
  stored_userName :: string
  stored_createdAt :: nat
  stored_type :: string

definition saveWebAuthnCredential :: "codecs \<Rightarrow> credential \<Rightarrow> stored_credential" where
  "saveWebAuthnCredential lib c =
     \<lparr>stored_id = cred_id c, stored_rawId = cred_rawId c,
      stored_publicKey = arrayBufferToBase64 lib (as_Uint8Array (cred_publicKey c)),
      stored_userName = cred_userName c, stored_createdAt = cred_createdAt c,
      stored_type = cred_type c\<rparr>"

definition setupDevice ::
    "codecs \<Rightarrow> webauthn_env \<Rightarrow> string \<Rightarrow> js_error + (credential \<times> identity \<times> stored_credential)" where
  "setupDevice lib env userName =
     (if \<not> has_credentials_create env then Inl (Error ''WebAuthn not supported'')
      else
        (case credentials_create env of
           Inl e \<Rightarrow> Inl e
         | Inr None \<Rightarrow> Inl (Error ''Failed to create credential'')
         | Inr (Some pkc) \<Rightarrow>
             let publicKey = (case pkc_getPublicKey pkc of
                                Some k \<Rightarrow> ArrayBuffer k
                              | None \<Rightarrow> ArrayBuffer (pkc_rawId pkc));
                 c = \<lparr>cred_id = pkc_id pkc,
                      cred_rawId = arrayBufferToBase64 lib (pkc_rawId pkc),
                      cred_publicKey = publicKey,
                      cred_userName = userName,
                      cred_createdAt = Date_now env,
                      cred_type = pkc_type pkc\<rparr>
             in Inr (c, createOrbitDBIdentity lib c, saveWebAuthnCredential lib c)))"

subsection \<open>Verification\<close>

text \<open>
  A call that may throw returns \<open>Inl\<close> the value thrown or \<open>Inr\<close> its result;
  \<open>then_await\<close> is the sequencing of \<^verbatim>\<open>await\<close>ed calls inside one block and
  \<open>try_catch\<close> the \<^verbatim>\<open>try { ... } catch (error) { ... }\<close> around it.
\<close>

definition then_await :: "js_error + 'a \<Rightarrow> ('a \<Rightarrow> js_error + 'b) \<Rightarrow> js_error + 'b" where
  "then_await r k = (case r of Inl e \<Rightarrow> Inl e | Inr v \<Rightarrow> k v)"

definition try_catch :: "js_error + 'a \<Rightarrow> (js_error \<Rightarrow> js_error + 'a) \<Rightarrow> js_error + 'a" where
  "try_catch body handler = (case body of Inl e \<Rightarrow> handler e | Inr v \<Rightarrow> Inr v)"

text \<open>
  The Web Crypto calls of \<^verbatim>\<open>verifyWithWebCrypto\<close>: \<^verbatim>\<open>importKey\<close> of the raw
  P-256 key, \<^verbatim>\<open>digest\<close> with SHA-256, and \<^verbatim>\<open>verify\<close> with ECDSA. Each may throw.
\<close>

record 'k web_crypto =
  subtle_importKey :: "bytes \<Rightarrow> js_error + 'k"
  subtle_digest :: "bytes \<Rightarrow> js_error + bytes"
  subtle_verify :: "'k \<Rightarrow> bytes \<Rightarrow> bytes \<Rightarrow> js_error + bool"

definition hashData :: "'k web_crypto \<Rightarrow> bytes \<Rightarrow> js_error + bytes" where
  "hashData crypto data = subtle_digest crypto data"

definition verifyWithWebCrypto ::
    "'k web_crypto \<Rightarrow> bytes \<Rightarrow> bytes \<Rightarrow> bytes \<Rightarrow> js_error + bool" where
  "verifyWithWebCrypto crypto signature data publicKeyBytes =
     try_catch
       (then_await (subtle_importKey crypto publicKeyBytes) (\<lambda>publicKey.
        then_await (hashData crypto data) (\<lambda>dataHash.
        then_await (subtle_verify crypto publicKey signature dataHash) (\<lambda>isValid.
        Inr isValid))))
       (\<lambda>error. Inr False)"

text \<open>
  The \<^verbatim>\<open>verify\<close> member of the identity object. Its arguments are untyped and
  each is converted by \<^verbatim>\<open>x instanceof Uint8Array ? x : new Uint8Array(x)\<close> before
  \<^verbatim>\<open>verifyWithWebCrypto\<close> is called, outside any \<^verbatim>\<open>try\<close>. An argument is a
  byte container, a number, or \<^verbatim>\<open>null\<close> or \<^verbatim>\<open>undefined\<close>. A number is a length:
  \<^verbatim>\<open>new Uint8Array(n)\<close> throws a \<^verbatim>\<open>RangeError\<close> when \<open>n\<close> is negative or beyond
  what the engine allocates, and gives \<open>n\<close> zero bytes otherwise; \<^verbatim>\<open>null\<close> and
  \<^verbatim>\<open>undefined\<close> give the empty array. The engine supplies the largest length and
  the error it throws for a length.
\<close>

datatype verify_argument = Bytes binary | Number int | Nullish

record js_engine =
  max_array_length :: nat
  RangeError :: "int \<Rightarrow> js_error"

fun new_Uint8Array :: "js_engine \<Rightarrow> verify_argument \<Rightarrow> js_error + bytes" where
  "new_Uint8Array js (Bytes b) = Inr (as_Uint8Array b)"
| "new_Uint8Array js (Number n) =
     (if n < 0 \<or> int (max_array_length js) < n then Inl (RangeError js n)
      else Inr (replicate (nat n) 0))"
| "new_Uint8Array js Nullish = Inr []"

definition identity_verify ::
    "js_engine \<Rightarrow> 'k web_crypto \<Rightarrow> verify_argument \<Rightarrow> verify_argument \<Rightarrow> verify_argument
       \<Rightarrow> js_error + bool" where
  "identity_verify js crypto signature data publicKey =
     then_await (new_Uint8Array js data) (\<lambda>dataBytes.
     then_await (new_Uint8Array js signature) (\<lambda>signatureBytes.
     then_await (new_Uint8Array js publicKey) (\<lambda>publicKeyBytes.
     verifyWithWebCrypto crypto signatureBytes dataBytes publicKeyBytes)))"

text \<open>
  app-init.js, \<^verbatim>\<open>serializeIdentity\<close>: the identity without its functions and its
  credential, the public key as an array of numbers.
\<close>

definition serializeIdentity :: "identity \<Rightarrow> serialized_identity" where
  "serializeIdentity i =
     \<lparr>sid_id = identity_id i, sid_publicKey = map unat (identity_publicKey i),
      sid_type = identity_type i\<rparr>"


section \<open>ipc-bridge.ts: database operations over IPC\<close>

datatype js_value = JUndefined | JNull | JBool bool | JNum int | JStr string

fun truthy :: "js_value \<Rightarrow> bool" where
  "truthy JUndefined = False"
| "truthy JNull = False"
| "truthy (JBool b) = b"
| "truthy (JNum n) = (n \<noteq> 0)"
| "truthy (JStr s) = (s \<noteq> [])"

text \<open>An object with scalar fields; a field that is absent reads \<^verbatim>\<open>undefined\<close>.\<close>

type_synonym document = "(string \<times> js_value) list"

definition field :: "document \<Rightarrow> string \<Rightarrow> js_value" where
  "field d k = (case map_of d k of None \<Rightarrow> JUndefined | Some v \<Rightarrow> v)"

text \<open>What the bridge reads of a database object: \<^verbatim>\<open>db.address\<close>, \<^verbatim>\<open>db.name\<close>, \<^verbatim>\<open>db.type\<close>.\<close>

record database =
  db_address :: string
  db_name :: string
  db_type :: string

text \<open>
  The options of \<^verbatim>\<open>orbitdb:open\<close>; \<open>None\<close> is an absent property. The object
  handed to the engine is
  \<^verbatim>\<open>{ type: options.type || 'documents', create: options.create !== false, ...options }\<close>:
  the spread comes last, so a property that is present keeps its own value.
\<close>

record open_options =
  opt_type :: "string option"
  opt_create :: "bool option"

record open_args =
  arg_type :: string
  arg_create :: bool

definition open_arguments :: "open_options \<Rightarrow> open_args" where
  "open_arguments options =
     (let defaults = \<lparr>arg_type = (case opt_type options of
                                      Some t \<Rightarrow> if t \<noteq> [] then t else ''documents''
                                    | None \<Rightarrow> ''documents''),
                      arg_create = (opt_create options \<noteq> Some False)\<rparr>;
          with_type = (case opt_type options of
                         Some t \<Rightarrow> defaults\<lparr>arg_type := t\<rparr> | None \<Rightarrow> defaults)
      in (case opt_create options of
            Some c \<Rightarrow> with_type\<lparr>arg_create := c\<rparr> | None \<Rightarrow> with_type))"

text \<open>
  The database engine and the JavaScript runtime as the bridge calls them. The
  engine owns the contents of every database: \<open>'w\<close> is all of its state, and each
  call takes the state and returns the new one with its result or the value thrown.
  \<open>js_eval\<close> is \<^verbatim>\<open>eval\<close> on the source of a filter: the value thrown, or a
  predicate that may itself throw on a document.
\<close>

record 'w engine =
  orbitdb_open_db :: "orbitdb_instance \<Rightarrow> string \<Rightarrow> open_args \<Rightarrow> 'w \<Rightarrow> (js_error + database) \<times> 'w"
  db_close :: "database \<Rightarrow> 'w \<Rightarrow> js_error option \<times> 'w"
  db_all :: "database \<Rightarrow> 'w \<Rightarrow> (js_error + document list) \<times> 'w"
  db_put :: "database \<Rightarrow> document \<Rightarrow> 'w \<Rightarrow> (js_error + string) \<times> 'w"
  db_del :: "database \<Rightarrow> string \<Rightarrow> 'w \<Rightarrow> (js_error + string) \<times> 'w"
  db_get :: "database \<Rightarrow> string \<Rightarrow> 'w \<Rightarrow> (js_error + document option) \<times> 'w"
  js_eval :: "string \<Rightarrow> js_error + (document \<Rightarrow> js_error + bool)"

text \<open>
  The state of the bridge: the \<^verbatim>\<open>databases\<close> map in insertion order (\<^verbatim>\<open>Map.set\<close>
  on a key that is present replaces its value in place, which is \<open>AList.update\<close>),
  the addresses for which an \<^verbatim>\<open>update\<close> callback has been registered, and the
  state of the engine.
\<close>

record 'w bridge =
  databases :: "(string \<times> database) list"
  update_callbacks :: "string list"
  world :: 'w

datatype 'a reply = Success 'a | Failure string

record db_info =
  info_address :: string
  info_name :: string
  info_type :: string

definition not_found :: "string \<Rightarrow> string" where
  "not_found address = ''Database not found: '' @ address"

definition orbitdb_open ::
    "'w engine \<Rightarrow> p2p_state \<Rightarrow> string \<Rightarrow> open_options \<Rightarrow> 'w bridge \<Rightarrow> db_info reply \<times> 'w bridge" where
  "orbitdb_open eng p2p name options st =
     (case getOrbitDB p2p of
        None \<Rightarrow> (Failure ''OrbitDB not initialized. Call createOrbitDB with identity first.'', st)
      | Some orbit \<Rightarrow>
          (case orbitdb_open_db eng orbit name (open_arguments options) (world st) of
             (Inl e, w) \<Rightarrow> (Failure (error_text e), st\<lparr>world := w\<rparr>)
           | (Inr db, w) \<Rightarrow>
               (Success \<lparr>info_address = db_address db, info_name = db_name db, info_type = db_type db\<rparr>,
                st\<lparr>databases := AList.update (db_address db) db (databases st),
                   update_callbacks := update_callbacks st @ [db_address db],
                   world := w\<rparr>)))"

definition orbitdb_close :: "'w engine \<Rightarrow> string \<Rightarrow> 'w bridge \<Rightarrow> unit reply \<times> 'w bridge" where
  "orbitdb_close eng address st =
     (case map_of (databases st) address of
        None \<Rightarrow> (Failure (not_found address), st)
      | Some db \<Rightarrow>
          (case db_close eng db (world st) of
             (Some e, w) \<Rightarrow> (Failure (error_text e), st\<lparr>world := w\<rparr>)
           | (None, w) \<Rightarrow>
               (Success (), st\<lparr>databases := AList.delete address (databases st), world := w\<rparr>)))"

definition orbitdb_getDatabases :: "'w bridge \<Rightarrow> db_info list reply \<times> 'w bridge" where
  "orbitdb_getDatabases st =
     (Success (map (\<lambda>(address, db).
                 \<lparr>info_address = address, info_name = db_name db, info_type = db_type db\<rparr>)
               (databases st)),
      st)"

text \<open>\<^verbatim>\<open>all.filter(filter)\<close>: the first document on which the predicate throws ends it.\<close>

fun filter_documents :: "(document \<Rightarrow> js_error + bool) \<Rightarrow> document list \<Rightarrow> js_error + document list" where
  "filter_documents f [] = Inr []"
| "filter_documents f (d # ds) =
     (case f d of
        Inl e \<Rightarrow> Inl e
      | Inr keep \<Rightarrow>
          (case filter_documents f ds of
             Inl e \<Rightarrow> Inl e
           | Inr rest \<Rightarrow> Inr (if keep then d # rest else rest)))"

definition orbitdb_query ::
    "'w engine \<Rightarrow> string \<Rightarrow> string option \<Rightarrow> 'w bridge \<Rightarrow> document list reply \<times> 'w bridge" where
  "orbitdb_query eng address filterFn st =
     (case map_of (databases st) address of
        None \<Rightarrow> (Failure (not_found address), st)
      | Some db \<Rightarrow>
          if db_type db \<noteq> ''documents''
          then (Failure ''Query only works with documents type databases'', st)
          else
            (case db_all eng db (world st) of
               (Inl e, w) \<Rightarrow> (Failure (error_text e), st\<lparr>world := w\<rparr>)
             | (Inr all, w) \<Rightarrow>
                 (case filterFn of
                    None \<Rightarrow> (Success all, st\<lparr>world := w\<rparr>)
                  | Some src \<Rightarrow>
                      if src = [] then (Success all, st\<lparr>world := w\<rparr>)
                      else
                        (case then_await (js_eval eng src) (\<lambda>f. filter_documents f all) of
                           Inl evalError \<Rightarrow> (Failure ''Invalid filter function'', st\<lparr>world := w\<rparr>)
                         | Inr results \<Rightarrow> (Success results, st\<lparr>world := w\<rparr>)))))"

definition orbitdb_add ::
    "'w engine \<Rightarrow> string \<Rightarrow> document \<Rightarrow> 'w bridge \<Rightarrow> string reply \<times> 'w bridge" where
  "orbitdb_add eng address doc st =
     (case map_of (databases st) address of
        None \<Rightarrow> (Failure (not_found address), st)
      | Some db \<Rightarrow>
          if db_type db \<noteq> ''documents''
          then (Failure ''Add only works with documents type databases'', st)
          else
            (case db_put eng db doc (world st) of
               (Inl e, w) \<Rightarrow> (Failure (error_text e), st\<lparr>world := w\<rparr>)
             | (Inr hash, w) \<Rightarrow> (Success hash, st\<lparr>world := w\<rparr>)))"

definition orbitdb_put ::
    "'w engine \<Rightarrow> string \<Rightarrow> document \<Rightarrow> 'w bridge \<Rightarrow> string reply \<times> 'w bridge" where
  "orbitdb_put eng address doc st =
     (case map_of (databases st) address of
        None \<Rightarrow> (Failure (not_found address), st)
      | Some db \<Rightarrow>
          if db_type db \<noteq> ''documents''
          then (Failure ''Put only works with documents type databases'', st)
          else if \<not> truthy (field doc ''_id'')
          then (Failure ''Document must have _id field for update'', st)
          else
            (case db_put eng db doc (world st) of
               (Inl e, w) \<Rightarrow> (Failure (error_text e), st\<lparr>world := w\<rparr>)
             | (Inr hash, w) \<Rightarrow> (Success hash, st\<lparr>world := w\<rparr>)))"

definition orbitdb_del ::
    "'w engine \<Rightarrow> string \<Rightarrow> string \<Rightarrow> 'w bridge \<Rightarrow> string reply \<times> 'w bridge" where
  "orbitdb_del eng address key st =
     (case map_of (databases st) address of
        None \<Rightarrow> (Failure (not_found address), st)
      | Some db \<Rightarrow>
          if db_type db \<noteq> ''documents''
          then (Failure ''Del only works with documents type databases'', st)
          else
            (case db_del eng db key (world st) of
               (Inl e, w) \<Rightarrow> (Failure (error_text e), st\<lparr>world := w\<rparr>)
             | (Inr hash, w) \<Rightarrow> (Success hash, st\<lparr>world := w\<rparr>)))"

definition orbitdb_get ::
    "'w engine \<Rightarrow> string \<Rightarrow> string \<Rightarrow> 'w bridge \<Rightarrow> document option reply \<times> 'w bridge" where
  "orbitdb_get eng address ident st =
     (case map_of (databases st) address of
        None \<Rightarrow> (Failure (not_found address), st)
      | Some db \<Rightarrow>
          if db_type db \<noteq> ''documents''
          then (Failure ''Get only works with documents type databases'', st)
          else
            (case db_get eng db ident (world st) of
               (Inl e, w) \<Rightarrow> (Failure (error_text e), st\<lparr>world := w\<rparr>)
             | (Inr doc, w) \<Rightarrow> (Success doc, st\<lparr>world := w\<rparr>)))"

definition orbitdb_info :: "string \<Rightarrow> 'w bridge \<Rightarrow> db_info reply \<times> 'w bridge" where
  "orbitdb_info address st =
     (case map_of (databases st) address of
        None \<Rightarrow> (Failure (not_found address), st)
      | Some db \<Rightarrow>
          (Success \<lparr>info_address = db_address db, info_name = db_name db, info_type = db_type db\<rparr>,
           st))"

text \<open>
  \<^verbatim>\<open>closeAllDatabases\<close>: every database is closed inside its own \<^verbatim>\<open>try\<close>, a value
  thrown is logged and the loop goes on; then the map is cleared.
\<close>

fun close_each :: "'w engine \<Rightarrow> (string \<times> database) list \<Rightarrow> 'w \<Rightarrow> js_error list \<times> 'w" where
  "close_each eng [] w = ([], w)"
| "close_each eng ((address, db) # rest) w =
     (case db_close eng db w of
        (Some e, w1) \<Rightarrow> (case close_each eng rest w1 of (errs, w2) \<Rightarrow> (e # errs, w2))
      | (None, w1) \<Rightarrow> close_each eng rest w1)"

definition closeAllDatabases :: "'w engine \<Rightarrow> 'w bridge \<Rightarrow> js_error list \<times> 'w bridge" where
  "closeAllDatabases eng st =
     (case close_each eng (databases st) (world st) of
        (errs, w) \<Rightarrow> (errs, st\<lparr>databases := [], world := w\<rparr>))"

subsection \<open>The update channel\<close>

text \<open>
  An entry of the engine as the callback reads it: \<^verbatim>\<open>entry.payload?.op\<close>.
\<close>

record entry =
  entry_hash :: string
  entry_payload :: "document option"

record update_event =
  address :: string
  entry :: entry
  operation :: js_value

text \<open>
  The callback registered by \<^verbatim>\<open>orbitdb:open\<close> on \<^verbatim>\<open>db.events\<close>, for the database
  opened at \<open>addr\<close>: one message on the channel \<^verbatim>\<open>orbitdb:update\<close> to the window.
\<close>

definition on_update :: "string \<Rightarrow> entry \<Rightarrow> string \<times> update_event" where
  "on_update addr e =
     (''orbitdb:update'',
      \<lparr>address = addr, entry = e,
       operation = (let op = (case entry_payload e of None \<Rightarrow> JUndefined | Some p \<Rightarrow> field p ''op'')
                    in if truthy op then op else JStr ''unknown'')\<rparr>)"

text \<open>
  preload.ts. \<^verbatim>\<open>onUpdate(callback)\<close> makes a new function
  \<^verbatim>\<open>(_event, data) => callback(data)\<close>, registers it with \<^verbatim>\<open>ipcRenderer.on\<close> on
  the channel \<^verbatim>\<open>orbitdb:update\<close> and returns it; it takes no address. The new
  function is a listener: the callback it wraps, and a number that tells it from
  every function made before it. The renderer holds the registrations, pairs of a
  channel and a listener in the order of registration, and the count of the
  listeners made. \<^verbatim>\<open>removeUpdateListener(listener)\<close> removes the most recent
  registration of that listener on the channel. A message on a channel calls every
  listener registered on the channel, in order, and each calls its callback with
  the data.
\<close>

record 'cb listener =
  listener_number :: nat
  listener_callback :: 'cb

record 'cb ipc_renderer =
  listeners :: "(string \<times> 'cb listener) list"
  listeners_made :: nat

definition onUpdate :: "'cb \<Rightarrow> 'cb ipc_renderer \<Rightarrow> 'cb listener \<times> 'cb ipc_renderer" where
  "onUpdate callback r =
     (let listener = \<lparr>listener_number = listeners_made r, listener_callback = callback\<rparr>
      in (listener,
          r\<lparr>listeners := listeners r @ [(''orbitdb:update'', listener)],
            listeners_made := Suc (listeners_made r)\<rparr>))"

definition removeUpdateListener :: "'cb listener \<Rightarrow> 'cb ipc_renderer \<Rightarrow> 'cb ipc_renderer" where
  "removeUpdateListener listener r =
     r\<lparr>listeners := rev (remove1 (''orbitdb:update'', listener) (rev (listeners r)))\<rparr>"

definition ipc_message :: "string \<times> 'd \<Rightarrow> 'cb ipc_renderer \<Rightarrow> ('cb \<times> 'd) list" where
  "ipc_message msg r =
     map (\<lambda>(channel, listener). (listener_callback listener, snd msg))
       (filter (\<lambda>(channel, listener). channel = fst msg) (listeners r))"

text \<open>
  app-init.js: the callback the application registers. It reloads the intentions
  when the address of the event is that of the intentions database, and does
  nothing otherwise.
\<close>

datatype reaction = Reload_intentions | Nothing

definition update_listener :: "string option \<Rightarrow> update_event \<Rightarrow> reaction" where
  "update_listener intentionsDbAddress data =
     (if Some (address data) = intentionsDbAddress then Reload_intentions else Nothing)"


section \<open>Concrete inputs\<close>

text \<open>
  Two network nodes as \<^verbatim>\<open>createLibp2p\<close> returns them in one process: the first
  listens on the fixed port, the second, made while the first holds that port, on
  the dynamic one, and each has a peer id of its own.
\<close>

definition node_A :: libp2p_node where
  "node_A = \<lparr>node_peerId = ''12D3KooWA'',
             node_multiaddrs = [''/ip4/127.0.0.1/tcp/4003/p2p/12D3KooWA''],
             node_connections = []\<rparr>"

definition node_B :: libp2p_node where
  "node_B = \<lparr>node_peerId = ''12D3KooWB'',
             node_multiaddrs = [''/ip4/127.0.0.1/tcp/51234/p2p/12D3KooWB''],
             node_connections = []\<rparr>"

definition env_A :: init_env where
  "env_A = \<lparr>userData = ''/home/u/SyncEngine'', createLibp2p = Inr node_A, createHelia = None\<rparr>"

definition env_B :: init_env where
  "env_B = \<lparr>userData = ''/home/u/SyncEngine'', createLibp2p = Inr node_B, createHelia = None\<rparr>"

text \<open>The error of LevelDB on a key that is absent, and an error of another kind.\<close>

definition level_error :: js_error where
  "level_error = \<lparr>err_code = ''LEVEL_NOT_FOUND'', err_notFound = True, err_is_Error = True,
                  err_message = ''NotFound: '', err_String = ''Error: NotFound: ''\<rparr>"

definition env_first_run :: init_env where
  "env_first_run =
     \<lparr>userData = ''/home/u/SyncEngine'', createLibp2p = Inr node_A, createHelia = Some level_error\<rparr>"

definition ready_state :: p2p_state where
  "ready_state = snd (initializeP2P env_A initial_state)"

definition demo_identity :: serialized_identity where
  "demo_identity = \<lparr>sid_id = ''did:key:z6Mk'', sid_publicKey = [4, 1, 2], sid_type = ''webauthn''\<rparr>"

definition bound_state :: p2p_state where
  "bound_state =
     snd (createOrbitDBWithIdentity \<lparr>orbit_userData = ''/home/u/SyncEngine'', createOrbitDB = None\<rparr>
            demo_identity ready_state)"

text \<open>
  A database engine that keeps the documents of each address in a list, never
  throws, and whose \<^verbatim>\<open>eval\<close> rejects every source. It stands for the engine
  where an operation of the bridge is run on a concrete input.
\<close>

type_synonym memory = "(string \<times> document list) list"

definition documents_at :: "memory \<Rightarrow> string \<Rightarrow> document list" where
  "documents_at w a = (case map_of w a of None \<Rightarrow> [] | Some ds \<Rightarrow> ds)"

definition memory_engine :: "memory engine" where
  "memory_engine =
     \<lparr>orbitdb_open_db = (\<lambda>orbit name args w.
        (Inr \<lparr>db_address = ''/orbitdb/'' @ name, db_name = name, db_type = arg_type args\<rparr>, w)),
      db_close = (\<lambda>db w. (None, w)),
      db_all = (\<lambda>db w. (Inr (documents_at w (db_address db)), w)),
      db_put = (\<lambda>db doc w.
        (Inr ''zdpu'', AList.update (db_address db) (documents_at w (db_address db) @ [doc]) w)),
      db_del = (\<lambda>db key w.
        (Inr ''zdpu'',
         AList.update (db_address db)
           (filter (\<lambda>d. field d ''_id'' \<noteq> JStr key) (documents_at w (db_address db))) w)),
      db_get = (\<lambda>db key w.
        (Inr (find (\<lambda>d. field d ''_id'' = JStr key) (documents_at w (db_address db))), w)),
      js_eval = (\<lambda>src. Inl (Error ''SyntaxError''))\<rparr>"

definition empty_bridge :: "memory bridge" where
  "empty_bridge = \<lparr>databases = [], update_callbacks = [], world = []\<rparr>"

definition events_bridge :: "memory bridge" where
  "events_bridge =
     snd (orbitdb_open memory_engine bound_state ''log''
            \<lparr>opt_type = Some ''events'', opt_create = None\<rparr> empty_bridge)"


definition lock_error :: js_error where
  "lock_error = \<lparr>err_code = ''LEVEL_LOCKED'', err_notFound = False, err_is_Error = True,
                 err_message = ''Database is not open'', err_String = ''Error: Database is not open''\<rparr>"

definition env_B_locked :: init_env where
  "env_B_locked =
     \<lparr>userData = ''/home/u/SyncEngine'', createLibp2p = Inr node_B, createHelia = Some lock_error\<rparr>"

definition no_failure :: stop_env where
  "no_failure = \<lparr>orbitdb_stop = None, helia_stop = None, libp2p_stop = None\<rparr>"

definition put_entry :: entry where
  "put_entry = \<lparr>entry_hash = ''zdpuA'', entry_payload = Some [(''op'', JStr ''PUT'')]\<rparr>"

text \<open>
  Web Crypto reduced to what makes each of its three calls throw: an empty key is
  not imported, empty data is not digested, an empty signature is not verified.
\<close>

definition small_crypto :: "bytes web_crypto" where
  "small_crypto =
     \<lparr>subtle_importKey = (\<lambda>k. if k = [] then Inl (Error ''DataError'') else Inr k),
      subtle_digest = (\<lambda>d. if d = [] then Inl (Error ''OperationError'') else Inr (rev d)),
      subtle_verify = (\<lambda>k s h. if s = [] then Inl (Error ''OperationError'') else Inr (s = k @ h))\<rparr>"

text \<open>Two encoders that are functions of the bytes and nothing more.\<close>

definition small_codecs :: codecs where
  "small_codecs =
     \<lparr>base58btc_encode = (\<lambda>bs. CHR ''z'' # map (\<lambda>b. if b = 0 then CHR ''1'' else CHR ''2'') bs),
      btoa = (\<lambda>bs. map (\<lambda>b. if b = 0 then CHR ''A'' else CHR ''B'') bs)\<rparr>"

definition alice_env :: webauthn_env where
  "alice_env =
     \<lparr>has_credentials_create = True,
      credentials_create = Inr (Some \<lparr>pkc_id = ''c1'', pkc_rawId = [7], pkc_type = ''public-key'',
                                       pkc_getPublicKey = Some [4, 0, 9]\<rparr>),
      Date_now = 1000\<rparr>"

definition bob_env :: webauthn_env where
  "bob_env =
     \<lparr>has_credentials_create = True,
      credentials_create = Inr (Some \<lparr>pkc_id = ''c2'', pkc_rawId = [4, 0, 9], pkc_type = ''public-key'',
                                       pkc_getPublicKey = None\<rparr>),
      Date_now = 2000\<rparr>"

text \<open>The bridge after \<^verbatim>\<open>openDatabase('x')\<close>, and after closing that database again.\<close>

definition default_options :: open_options where
  "default_options = \<lparr>opt_type = None, opt_create = None\<rparr>"

definition x_info :: db_info where
  "x_info = \<lparr>info_address = ''/orbitdb/x'', info_name = ''x'', info_type = ''documents''\<rparr>"

definition x_opened :: "memory bridge" where
  "x_opened =
     \<lparr>databases = [(''/orbitdb/x'',
                     \<lparr>db_address = ''/orbitdb/x'', db_name = ''x'', db_type = ''documents''\<rparr>)],
      update_callbacks = [''/orbitdb/x''], world = []\<rparr>"

definition x_closed :: "memory bridge" where
  "x_closed = \<lparr>databases = [], update_callbacks = [''/orbitdb/x''], world = []\<rparr>"

definition log_db :: database where
  "log_db = \<lparr>db_address = ''/orbitdb/log'', db_name = ''log'', db_type = ''events''\<rparr>"

definition a_document :: document where
  "a_document = [(''_id'', JStr ''1''), (''text'', JStr ''hello'')]"

text \<open>
  A renderer with no listener, and the renderer after two calls of \<^verbatim>\<open>onUpdate\<close>:
  first with a callback that is interested in database A, then with one that is
  interested in database B. A callback is given by the address it compares the
  events with, as \<open>update_listener\<close> is.
\<close>

definition no_listeners :: "string option ipc_renderer" where
  "no_listeners = \<lparr>listeners = [], listeners_made = 0\<rparr>"

definition two_listeners :: "string option ipc_renderer" where
  "two_listeners =
     snd (onUpdate (Some ''/orbitdb/B'') (snd (onUpdate (Some ''/orbitdb/A'') no_listeners)))"

text \<open>An engine that allocates arrays of up to 4294967295 bytes.\<close>

definition small_engine :: js_engine where
  "small_engine =
     \<lparr>max_array_length = 4294967295,
      RangeError = (\<lambda>n. \<lparr>err_code = [], err_notFound = False, err_is_Error = True,
                         err_message = ''Invalid typed array length'',
                         err_String = ''RangeError: Invalid typed array length''\<rparr>)\<rparr>"

text \<open>The identity of a run of \<^verbatim>\<open>setupDevice\<close>, when the run returns.\<close>

definition device_identity ::
    "js_error + (credential \<times> identity \<times> stored_credential) \<Rightarrow> identity option" where
  "device_identity r = (case r of Inl e \<Rightarrow> None | Inr (c, i, s) \<Rightarrow> Some i)"

section \<open>The members of the state, in the order of teardown\<close>

definition is_set :: "p2p_state \<Rightarrow> member \<Rightarrow> bool" where
  "is_set st m =
     (case m of OrbitDB \<Rightarrow> orbitdb st \<noteq> None | Helia \<Rightarrow> helia st \<noteq> None | Libp2p \<Rightarrow> libp2p st \<noteq> None)"

section \<open>Properties of p2p-main.ts\<close>

lemma ready_state_members:
  "ready_state =
     \<lparr>libp2p = Some node_A,
      helia = Some \<lparr>helia_libp2p = node_A,
                     helia_blockstore = ''/home/u/SyncEngine/orbitdb/blocks'',
                     helia_datastore = ''/home/u/SyncEngine/orbitdb/data''\<rparr>,
      orbitdb = None\<rparr>"
  by (simp add: ready_state_def initializeP2P_def env_A_def initial_state_def)

lemma bound_state_members:
  "bound_state =
     \<lparr>libp2p = Some node_A,
      helia = Some \<lparr>helia_libp2p = node_A,
                     helia_blockstore = ''/home/u/SyncEngine/orbitdb/blocks'',
                     helia_datastore = ''/home/u/SyncEngine/orbitdb/data''\<rparr>,
      orbitdb = Some \<lparr>orbit_ipfs = \<lparr>helia_libp2p = node_A,
                                       helia_blockstore = ''/home/u/SyncEngine/orbitdb/blocks'',
                                       helia_datastore = ''/home/u/SyncEngine/orbitdb/data''\<rparr>,
                       orbit_identity = demo_identity,
                       orbit_directory = ''/home/u/SyncEngine/orbitdb/orbitdb''\<rparr>\<rparr>"
  by (simp add: bound_state_def ready_state_members createOrbitDBWithIdentity_def)

lemma initializeP2P_installs_new_node:
  "createLibp2p env = Inr node \<Longrightarrow> libp2p (snd (initializeP2P env st)) = Some node"
  by (simp add: initializeP2P_def initializeP2P_catch_def Let_def split: option.splits)

text \<open>
  C1. Initialisation is meant to be idempotent: once it has completed, a second
  \<^verbatim>\<open>initialize()\<close> should return the existing identifier and make no second
  network node. The code has no such guard. In \<open>ready_state\<close>, reached by one
  successful initialisation with node A, the handler run again makes node B and puts
  it in place of A: when the block store opens again, the caller is given B's
  identifier and a second block store is made; when the block store is locked, the
  call fails and leaves node B beside the block store built on node A.
\<close>

theorem p2p_initialize_again_replaces_node:
  "helia ready_state \<noteq> None
   \<and> getPeerId ready_state = Some ''12D3KooWA''
   \<and> success (fst (p2p_initialize env_B ready_state))
   \<and> peerId (fst (p2p_initialize env_B ready_state)) = Some ''12D3KooWB''
   \<and> libp2p (snd (p2p_initialize env_B ready_state)) = Some node_B
   \<and> libp2p (snd (p2p_initialize env_B ready_state)) \<noteq> libp2p ready_state
   \<and> helia (snd (p2p_initialize env_B ready_state)) \<noteq> helia ready_state
   \<and> \<not> success (fst (p2p_initialize env_B_locked ready_state))
   \<and> libp2p (snd (p2p_initialize env_B_locked ready_state)) = Some node_B
   \<and> helia (snd (p2p_initialize env_B_locked ready_state)) = helia ready_state"
  by (simp add: p2p_initialize_def initializeP2P_def initializeP2P_catch_def level_not_found_def
      getPeerId_def init_ok_def init_failed_def ready_state_members env_B_def env_B_locked_def
      node_A_def node_B_def lock_error_def)

text \<open>
  C2, as stated, fails: when \<^verbatim>\<open>orbitdb.stop()\<close> throws, the error is logged and
  neither \<^verbatim>\<open>helia.stop()\<close> nor \<^verbatim>\<open>libp2p.stop()\<close> is called; all three members
  stay in place.
\<close>

theorem shutdownP2P_skips_remaining_steps_counterexample:
  "shutdownP2P (no_failure\<lparr>orbitdb_stop := Some lock_error\<rparr>) bound_state
     = (bound_state, [Stop OrbitDB, Console_error lock_error])
   \<and> stops (snd (shutdownP2P (no_failure\<lparr>orbitdb_stop := Some lock_error\<rparr>) bound_state)) = [OrbitDB]
   \<and> logged (snd (shutdownP2P (no_failure\<lparr>orbitdb_stop := Some lock_error\<rparr>) bound_state))
       = [lock_error]
   \<and> is_set bound_state Helia \<and> is_set bound_state Libp2p"
  by (simp add: shutdownP2P_def stop_orbitdb_def no_failure_def is_set_def bound_state_members)

text \<open>
  C2, amended. \<^verbatim>\<open>shutdown()\<close> stops the members that are set in the order
  database engine, storage, network node, and clears each one that has stopped. The
  first \<^verbatim>\<open>stop()\<close> that throws ends the teardown: the value thrown is logged and not
  passed on, the steps after it are not run, and the member that threw and those
  after it stay in place. When no \<^verbatim>\<open>stop()\<close> throws, every member is cleared and
  nothing is logged.
\<close>

theorem shutdownP2P_first_failure_ends_teardown:
  "(orbitdb st \<noteq> None \<and> orbitdb_stop env = Some e \<longrightarrow>
      shutdownP2P env st = (st, [Stop OrbitDB, Console_error e]))
   \<and> ((orbitdb st = None \<or> orbitdb_stop env = None) \<and> helia st \<noteq> None \<and> helia_stop env = Some e \<longrightarrow>
      shutdownP2P env st
        = (st\<lparr>orbitdb := None\<rparr>,
           map Stop (filter (is_set st) [OrbitDB, Helia]) @ [Console_error e]))
   \<and> ((orbitdb st = None \<or> orbitdb_stop env = None) \<and> (helia st = None \<or> helia_stop env = None)
       \<and> libp2p st \<noteq> None \<and> libp2p_stop env = Some e \<longrightarrow>
      shutdownP2P env st
        = (st\<lparr>orbitdb := None, helia := None\<rparr>,
           map Stop (filter (is_set st) [OrbitDB, Helia, Libp2p]) @ [Console_error e]))
   \<and> ((orbitdb st = None \<or> orbitdb_stop env = None) \<and> (helia st = None \<or> helia_stop env = None)
       \<and> (libp2p st = None \<or> libp2p_stop env = None) \<longrightarrow>
      shutdownP2P env st
        = (initial_state, map Stop (filter (is_set st) [OrbitDB, Helia, Libp2p])))"
  by (cases st)
    (auto simp: shutdownP2P_def stop_orbitdb_def stop_helia_def stop_libp2p_def is_set_def
      initial_state_def split: option.splits)

theorem shutdownP2P_first_failure_ends_teardown_witness:
  "shutdownP2P (no_failure\<lparr>orbitdb_stop := Some lock_error\<rparr>) bound_state
     = (bound_state, [Stop OrbitDB, Console_error lock_error])
   \<and> shutdownP2P (no_failure\<lparr>helia_stop := Some lock_error\<rparr>) bound_state
     = (bound_state\<lparr>orbitdb := None\<rparr>, [Stop OrbitDB, Stop Helia, Console_error lock_error])
   \<and> shutdownP2P (no_failure\<lparr>libp2p_stop := Some lock_error\<rparr>) bound_state
     = (bound_state\<lparr>orbitdb := None, helia := None\<rparr>,
        [Stop OrbitDB, Stop Helia, Stop Libp2p, Console_error lock_error])
   \<and> shutdownP2P no_failure bound_state = (initial_state, [Stop OrbitDB, Stop Helia, Stop Libp2p])"
  using shutdownP2P_first_failure_ends_teardown
          [of bound_state "no_failure\<lparr>orbitdb_stop := Some lock_error\<rparr>" lock_error]
        shutdownP2P_first_failure_ends_teardown
          [of bound_state "no_failure\<lparr>helia_stop := Some lock_error\<rparr>" lock_error]
        shutdownP2P_first_failure_ends_teardown
          [of bound_state "no_failure\<lparr>libp2p_stop := Some lock_error\<rparr>" lock_error]
        shutdownP2P_first_failure_ends_teardown [of bound_state no_failure lock_error]
  by (simp add: no_failure_def is_set_def bound_state_members initial_state_def)

text \<open>
  C4. When the node has been made and opening the block and record stores throws
  the not-found error of a first run, \<^verbatim>\<open>initialize()\<close> returns success with the
  identifier and the addresses of the node and the storage root.
\<close>

theorem initializeP2P_first_run_success:
  assumes "createLibp2p env = Inr node" and "createHelia env = Some e" and "level_not_found e"
  shows "fst (initializeP2P env st)
           = init_ok (node_peerId node) (node_multiaddrs node) (path_join [userData env, ''orbitdb''])
         \<and> success (fst (initializeP2P env st))"
  using assms by (simp add: initializeP2P_def initializeP2P_catch_def init_ok_def)

theorem initializeP2P_first_run_success_witness:
  "createLibp2p env_first_run = Inr node_A \<and> createHelia env_first_run = Some level_error
   \<and> level_not_found level_error
   \<and> fst (initializeP2P env_first_run initial_state)
       = init_ok ''12D3KooWA'' [''/ip4/127.0.0.1/tcp/4003/p2p/12D3KooWA''] ''/home/u/SyncEngine/orbitdb''
   \<and> success (fst (initializeP2P env_first_run initial_state))"
proof -
  have h1: "createLibp2p env_first_run = Inr node_A"
    and h2: "createHelia env_first_run = Some level_error"
    and h3: "level_not_found level_error"
    by (simp_all add: env_first_run_def level_not_found_def level_error_def)
  show ?thesis
    using h1 h2 h3 initializeP2P_first_run_success [OF h1 h2 h3, of initial_state]
    by (simp add: node_A_def env_first_run_def init_ok_def)
qed





section \<open>Properties of data-model.js\<close>

text \<open>
  The \<^verbatim>\<open>verify\<close> member returns a boolean when its three arguments are byte
  containers, and throws the \<^verbatim>\<open>RangeError\<close> of the conversion, before
  \<^verbatim>\<open>verifyWithWebCrypto\<close> is entered, when its data is a negative length.
\<close>

lemma identity_verify_conversion:
  "(\<exists>b. identity_verify js crypto (Bytes sb) (Bytes db) (Bytes kb) = Inr b)
   \<and> (n < 0 \<longrightarrow> identity_verify js crypto sg (Number n) pk = Inl (RangeError js n))"
  by (auto simp: identity_verify_def verifyWithWebCrypto_def try_catch_def then_await_def
      hashData_def split: sum.splits)



text \<open>
  C8. The identifier is a function of the public key bytes alone: two credentials
  with the same public key bytes give identities with the same identifier, and two
  runs of credential creation that return identities with the same public key
  return the same identifier, whatever the user name, the clock, the credential id
  and the form of the key (the authenticator's key or the raw id in its place).
\<close>

theorem identifier_determined_by_public_key:
  "(as_Uint8Array (cred_publicKey c1) = as_Uint8Array (cred_publicKey c2) \<longrightarrow>
      identity_id (createOrbitDBIdentity lib c1) = identity_id (createOrbitDBIdentity lib c2))
   \<and> (device_identity (setupDevice lib env1 n1) = Some i1
       \<and> device_identity (setupDevice lib env2 n2) = Some i2
       \<and> identity_publicKey i1 = identity_publicKey i2 \<longrightarrow>
      identity_id i1 = identity_id i2)"
  by (auto simp: createOrbitDBIdentity_def setupDevice_def device_identity_def generateDID_def Let_def
      split: if_splits sum.splits option.splits)

theorem identifier_determined_by_public_key_witness:
  "(\<exists>i1 i2. device_identity (setupDevice small_codecs alice_env ''alice'') = Some i1
       \<and> device_identity (setupDevice small_codecs bob_env ''bob'') = Some i2
       \<and> identity_credential i1 \<noteq> identity_credential i2
       \<and> identity_publicKey i1 = [4, 0, 9] \<and> identity_publicKey i2 = [4, 0, 9]
       \<and> identity_id i1 = identity_id i2)
   \<and> identity_id (createOrbitDBIdentity small_codecs
        \<lparr>cred_id = ''c1'', cred_rawId = ''B'', cred_publicKey = Uint8Array [4, 0, 9],
         cred_userName = ''alice'', cred_createdAt = 1000, cred_type = ''public-key''\<rparr>)
     = identity_id (createOrbitDBIdentity small_codecs
        \<lparr>cred_id = ''c1'', cred_rawId = ''B'', cred_publicKey = NumberArray [4, 256, 9],
         cred_userName = ''alice'', cred_createdAt = 1000, cred_type = ''public-key''\<rparr>)"
proof -
  obtain i1 where r1: "device_identity (setupDevice small_codecs alice_env ''alice'') = Some i1"
    by (simp add: setupDevice_def alice_env_def device_identity_def Let_def)
  obtain i2 where r2: "device_identity (setupDevice small_codecs bob_env ''bob'') = Some i2"
    by (simp add: setupDevice_def bob_env_def device_identity_def Let_def)
  have k1: "identity_publicKey i1 = [4, 0, 9]" and k2: "identity_publicKey i2 = [4, 0, 9]"
    and c: "identity_credential i1 \<noteq> identity_credential i2"
    using r1 r2
    by (auto simp: setupDevice_def alice_env_def bob_env_def device_identity_def Let_def
        createOrbitDBIdentity_def)
  have same: "identity_id i1 = identity_id i2"
    using identifier_determined_by_public_key [of _ _ small_codecs alice_env "''alice''" i1 bob_env "''bob''" i2]
      r1 r2 k1 k2 by simp
  have creds: "identity_id (createOrbitDBIdentity small_codecs
        \<lparr>cred_id = ''c1'', cred_rawId = ''B'', cred_publicKey = Uint8Array [4, 0, 9],
         cred_userName = ''alice'', cred_createdAt = 1000, cred_type = ''public-key''\<rparr>)
     = identity_id (createOrbitDBIdentity small_codecs
        \<lparr>cred_id = ''c1'', cred_rawId = ''B'', cred_publicKey = NumberArray [4, 256, 9],
         cred_userName = ''alice'', cred_createdAt = 1000, cred_type = ''public-key''\<rparr>)"
    using identifier_determined_by_public_key
      [of "\<lparr>cred_id = ''c1'', cred_rawId = ''B'', cred_publicKey = Uint8Array [4, 0, 9],
         cred_userName = ''alice'', cred_createdAt = 1000, cred_type = ''public-key''\<rparr>"
          "\<lparr>cred_id = ''c1'', cred_rawId = ''B'', cred_publicKey = NumberArray [4, 256, 9],
         cred_userName = ''alice'', cred_createdAt = 1000, cred_type = ''public-key''\<rparr>"
          small_codecs]
    by simp
  from r1 r2 c k1 k2 same creds show ?thesis by blast
qed


section \<open>Properties of ipc-bridge.ts and preload.ts\<close>

lemma opened_address_present:
  "orbitdb_open eng p2p name options st = (Success info, st1) \<Longrightarrow>
   map_of (databases st1) (info_address info)
     = Some \<lparr>db_address = info_address info, db_name = info_name info, db_type = info_type info\<rparr>"
  by (auto simp: orbitdb_open_def update_conv' split: option.splits prod.splits sum.splits)

lemma closed_address_absent:
  "orbitdb_close eng a st = (Success u, st') \<Longrightarrow> map_of (databases st') a = None"
  by (auto simp: orbitdb_close_def delete_conv' split: option.splits prod.splits)

lemma absent_address_not_found:
  assumes "map_of (databases st) a = None"
  shows "orbitdb_query eng a f st = (Failure (not_found a), st)"
    and "orbitdb_get eng a k st = (Failure (not_found a), st)"
    and "orbitdb_add eng a d st = (Failure (not_found a), st)"
    and "orbitdb_put eng a d st = (Failure (not_found a), st)"
    and "orbitdb_del eng a k st = (Failure (not_found a), st)"
    and "orbitdb_info a st = (Failure (not_found a), st)"
    and "orbitdb_close eng a st = (Failure (not_found a), st)"
  using assms
  by (simp_all add: orbitdb_query_def orbitdb_get_def orbitdb_add_def orbitdb_put_def
      orbitdb_del_def orbitdb_info_def orbitdb_close_def)

text \<open>
  C5. \<^verbatim>\<open>openDatabase\<close> puts the handle of the database under the address it
  returns, and a \<^verbatim>\<open>closeDatabase\<close> of that address that succeeds removes it.
  After the two, \<^verbatim>\<open>queryDocuments\<close> of the address answers with the
  failure \<^verbatim>\<open>Database not found\<close>, and so does every other operation that names
  the address; each of them is an answer, and leaves the bridge and the engine as
  they were.
\<close>

theorem open_close_then_not_found:
  assumes "orbitdb_open eng p2p name options st = (Success info, st1)"
    and "orbitdb_close eng (info_address info) st1 = (Success (), st2)"
  shows "map_of (databases st1) (info_address info)
           = Some \<lparr>db_address = info_address info, db_name = info_name info, db_type = info_type info\<rparr>
       \<and> map_of (databases st2) (info_address info) = None
       \<and> orbitdb_query eng (info_address info) f st2 = (Failure (not_found (info_address info)), st2)
       \<and> orbitdb_get eng (info_address info) k st2 = (Failure (not_found (info_address info)), st2)
       \<and> orbitdb_add eng (info_address info) d st2 = (Failure (not_found (info_address info)), st2)
       \<and> orbitdb_put eng (info_address info) d st2 = (Failure (not_found (info_address info)), st2)
       \<and> orbitdb_del eng (info_address info) k st2 = (Failure (not_found (info_address info)), st2)
       \<and> orbitdb_info (info_address info) st2 = (Failure (not_found (info_address info)), st2)
       \<and> orbitdb_close eng (info_address info) st2 = (Failure (not_found (info_address info)), st2)"
  using opened_address_present [OF assms(1)] closed_address_absent [OF assms(2)]
    absent_address_not_found [OF closed_address_absent [OF assms(2)]]
  by simp

theorem open_close_then_not_found_witness:
  "orbitdb_open memory_engine bound_state ''x'' default_options empty_bridge = (Success x_info, x_opened)
   \<and> orbitdb_close memory_engine ''/orbitdb/x'' x_opened = (Success (), x_closed)
   \<and> map_of (databases x_opened) ''/orbitdb/x'' \<noteq> None
   \<and> map_of (databases x_closed) ''/orbitdb/x'' = None
   \<and> orbitdb_query memory_engine ''/orbitdb/x'' None x_closed
       = (Failure ''Database not found: /orbitdb/x'', x_closed)
   \<and> orbitdb_add memory_engine ''/orbitdb/x'' a_document x_closed
       = (Failure ''Database not found: /orbitdb/x'', x_closed)"
proof -
  have h1: "orbitdb_open memory_engine bound_state ''x'' default_options empty_bridge
              = (Success x_info, x_opened)"
    by (simp add: orbitdb_open_def getOrbitDB_def memory_engine_def open_arguments_def
        default_options_def empty_bridge_def x_info_def x_opened_def bound_state_members)
  have h2: "orbitdb_close memory_engine (info_address x_info) x_opened = (Success (), x_closed)"
    by (simp add: orbitdb_close_def memory_engine_def x_info_def x_opened_def x_closed_def)
  show ?thesis
    using h1 h2 open_close_then_not_found [OF h1 h2, of None "''1''" a_document]
    by (simp add: x_info_def not_found_def)
qed

text \<open>
  C10. On an open database whose kind is not \<^verbatim>\<open>documents\<close>, each of query, get,
  add, put and delete answers with the failure that names the kind the operation
  needs, and leaves the open handles and the state of the engine as they were.
\<close>

theorem document_operations_reject_other_kinds:
  assumes "map_of (databases st) a = Some db" and "db_type db \<noteq> ''documents''"
  shows "orbitdb_query eng a f st = (Failure ''Query only works with documents type databases'', st)
       \<and> orbitdb_get eng a k st = (Failure ''Get only works with documents type databases'', st)
       \<and> orbitdb_add eng a d st = (Failure ''Add only works with documents type databases'', st)
       \<and> orbitdb_put eng a d st = (Failure ''Put only works with documents type databases'', st)
       \<and> orbitdb_del eng a k st = (Failure ''Del only works with documents type databases'', st)"
  using assms
  by (simp add: orbitdb_query_def orbitdb_get_def orbitdb_add_def orbitdb_put_def orbitdb_del_def)

theorem document_operations_reject_other_kinds_witness:
  "map_of (databases events_bridge) ''/orbitdb/log'' = Some log_db
   \<and> db_type log_db \<noteq> ''documents''
   \<and> orbitdb_query memory_engine ''/orbitdb/log'' None events_bridge
       = (Failure ''Query only works with documents type databases'', events_bridge)
   \<and> orbitdb_get memory_engine ''/orbitdb/log'' ''1'' events_bridge
       = (Failure ''Get only works with documents type databases'', events_bridge)
   \<and> orbitdb_add memory_engine ''/orbitdb/log'' a_document events_bridge
       = (Failure ''Add only works with documents type databases'', events_bridge)
   \<and> orbitdb_put memory_engine ''/orbitdb/log'' a_document events_bridge
       = (Failure ''Put only works with documents type databases'', events_bridge)
   \<and> orbitdb_del memory_engine ''/orbitdb/log'' ''1'' events_bridge
       = (Failure ''Del only works with documents type databases'', events_bridge)"
proof -
  have h1: "map_of (databases events_bridge) ''/orbitdb/log'' = Some log_db"
    by (simp add: events_bridge_def orbitdb_open_def getOrbitDB_def memory_engine_def
        open_arguments_def empty_bridge_def log_db_def bound_state_members)
  have h2: "db_type log_db \<noteq> ''documents''"
    by (simp add: log_db_def)
  show ?thesis
    using h1 h2
      document_operations_reject_other_kinds [OF h1 h2, of memory_engine None "''1''" a_document]
    by simp
qed




end
